theory Spec2Isabelle
  imports Main "HOL-Library.Word"
begin

section \<open>Values\<close>

text \<open>
  The Modbus client hands back an array \<open>data.data\<close>. A register read fills it with
  16-bit unsigned words, a coil or discrete-input read with booleans. A cell of that
  array is one or the other.
\<close>

datatype cell = Reg "16 word" | Bit bool

text \<open>
  The values a tag's \<open>currentValue\<close> can hold: \<open>undefined\<close> before the first decode,
  \<open>null\<close> after a reload of a saved \<open>NaN\<close>, a boolean, an integral number, \<open>NaN\<close>, or
  the number read by \<open>readFloatBE\<close> from a four-byte buffer, kept as its IEEE-754
  single-precision bit pattern. Integral numbers stay far below \<open>2 ^ 53\<close> here, so
  \<open>int\<close> arithmetic is the arithmetic of the source's doubles.
\<close>

datatype jsval = Undefined | Null | Bool bool | Num int | NaN | Float32 "32 word"

text \<open>\<open>data[i]\<close>: \<open>undefined\<close> (here \<open>None\<close>) beyond the end of the array.\<close>

definition idx :: "cell list \<Rightarrow> nat \<Rightarrow> cell option" where
  "idx xs i = (if i < length xs then Some (xs ! i) else None)"

text \<open>\<open>ToNumber\<close> on an array cell; \<open>None\<close> is \<open>NaN\<close>.\<close>

fun toNumber :: "cell option \<Rightarrow> int option" where
  "toNumber None = None"
| "toNumber (Some (Reg w)) = Some (uint w)"
| "toNumber (Some (Bit b)) = Some (if b then 1 else 0)"

text \<open>\<open>ToInt32\<close>: \<open>NaN\<close> becomes 0, an integer wraps into the signed 32-bit range.\<close>

definition toInt32 :: "int option \<Rightarrow> int" where
  "toInt32 x = (case x of None \<Rightarrow> 0 | Some n \<Rightarrow> (n + 2 ^ 31) mod 2 ^ 32 - 2 ^ 31)"

text \<open>\<open>x << k\<close>: both operands through \<open>ToInt32\<close>/\<open>ToUint32\<close>, the result again a signed
  32-bit integer.\<close>

definition js_shl :: "cell option \<Rightarrow> nat \<Rightarrow> int" where
  "js_shl x k = toInt32 (Some (toInt32 (toNumber x) * 2 ^ (k mod 32)))"

text \<open>\<open>a + data[i]\<close> with a number on the left: numeric addition after \<open>ToNumber\<close>.\<close>

definition js_add :: "int \<Rightarrow> cell option \<Rightarrow> jsval" where
  "js_add a y = (case toNumber y of None \<Rightarrow> NaN | Some b \<Rightarrow> Num (a + b))"

text \<open>\<open>data[i] - k\<close> and \<open>data[i] > k\<close>.\<close>

definition js_sub :: "cell option \<Rightarrow> int \<Rightarrow> jsval" where
  "js_sub x k = (case toNumber x of None \<Rightarrow> NaN | Some n \<Rightarrow> Num (n - k))"

definition js_gt :: "cell option \<Rightarrow> int \<Rightarrow> bool" where
  "js_gt x k = (case toNumber x of None \<Rightarrow> False | Some n \<Rightarrow> n > k)"

text \<open>The cell itself as a value, and \<open>Boolean(data[i])\<close>.\<close>

fun toValue :: "cell option \<Rightarrow> jsval" where
  "toValue None = Undefined"
| "toValue (Some (Reg w)) = Num (uint w)"
| "toValue (Some (Bit b)) = Bool b"

fun toBoolean :: "cell option \<Rightarrow> bool" where
  "toBoolean None = False"
| "toBoolean (Some (Reg w)) = (w \<noteq> 0)"
| "toBoolean (Some (Bit b)) = b"

text \<open>
  \<open>buffer.writeUInt16BE(data[i], off)\<close>: the value goes through unary plus, \<open>NaN\<close> passes
  the range check and is stored as 0, and a cell is never out of the range 0..65535,
  so the call does not throw here.
\<close>

fun writeUInt16BE :: "cell option \<Rightarrow> 16 word" where
  "writeUInt16BE None = 0"
| "writeUInt16BE (Some (Reg w)) = w"
| "writeUInt16BE (Some (Bit b)) = (if b then 1 else 0)"



section \<open>Register codec\<close>

definition getRegisterCount :: "string \<Rightarrow> nat" where
  "getRegisterCount dataType =
     (if dataType = ''float'' then 2
      else if dataType = ''int32'' then 2
      else if dataType = ''uint32'' then 2
      else 1)"

definition convertModbusData :: "cell list \<Rightarrow> string \<Rightarrow> jsval" where
  "convertModbusData data dataType =
     (if dataType = ''float'' then
        Float32 (word_cat (writeUInt16BE (idx data 0)) (writeUInt16BE (idx data 1)))
      else if dataType = ''int32'' then js_add (js_shl (idx data 0) 16) (idx data 1)
      else if dataType = ''uint32'' then js_add (js_shl (idx data 0) 16) (idx data 1)
      else if dataType = ''int16'' then
        (if js_gt (idx data 0) 32767 then js_sub (idx data 0) 65536 else toValue (idx data 0))
      else if dataType = ''uint16'' then toValue (idx data 0)
      else if dataType = ''boolean'' then Bool (toBoolean (idx data 0))
      else toValue (idx data 0))"

text \<open>
  The two lookup tables for the OPC UA type. A \<open>dataType\<close> that names a property every
  object inherits (\<open>constructor\<close>, \<open>toString\<close>, ...) would find that property in the
  table instead of falling to the default; such names are left out here. The result
  only travels to the OPC UA library.
\<close>

datatype opc_type = Float | Int32 | UInt32 | Int16 | UInt16 | Boolean

definition getOPCUADataType :: "string \<Rightarrow> string" where
  "getOPCUADataType dataType =
     (if dataType = ''float'' then ''Float''
      else if dataType = ''int32'' then ''Int32''
      else if dataType = ''uint32'' then ''UInt32''
      else if dataType = ''int16'' then ''Int16''
      else if dataType = ''uint16'' then ''UInt16''
      else if dataType = ''boolean'' then ''Boolean''
      else ''UInt16'')"

definition getOPCUADataTypeCode :: "string \<Rightarrow> opc_type" where
  "getOPCUADataTypeCode dataType =
     (if dataType = ''float'' then Float
      else if dataType = ''int32'' then Int32
      else if dataType = ''uint32'' then UInt32
      else if dataType = ''int16'' then Int16
      else if dataType = ''uint16'' then UInt16
      else if dataType = ''boolean'' then Boolean
      else UInt16)"

section \<open>Devices, tags and the process state\<close>

text \<open>
  A tag and a device as the configuration record has them. A string field that is
  absent is the empty string and a numeric field that is absent is 0: the source only
  ever tests these fields for falsiness (\<open>device.port || 502\<close>).
\<close>

record tag =
  tag_name :: string
  registerType :: string
  tag_address :: int
  dataType :: string
  currentValue :: jsval

record device =
  dev_id :: string
  dev_name :: string
  dev_type :: string
  dev_address :: string
  dev_port :: nat
  dev_baudRate :: nat
  dev_deviceId :: nat
  dev_pollInterval :: nat
  connected :: bool
  tags :: "tag list"

text \<open>
  The body of a \<open>POST /api/devices\<close> request. \<open>b_tags = None\<close> stands for a \<open>tags\<close>
  property that is missing, falsy or not an array.
\<close>

record body =
  b_id :: string
  b_name :: string
  b_type :: string
  b_address :: string
  b_port :: nat
  b_baudRate :: nat
  b_deviceId :: nat
  b_pollInterval :: nat
  b_connected :: bool
  b_tags :: "tag list option"

text \<open>
  The calls made on a Modbus client, and what comes back: the call throws (or its
  promise rejects), it returns nothing usable (\<open>data\<close> or \<open>data.data\<close> falsy; for a
  connect, \<open>setID\<close> or \<open>close\<close> simply a normal return), or it returns an array.
\<close>

datatype call =
    ConnectTCP string nat
  | ConnectRTUBuffered string nat
  | SetID nat
  | ReadHoldingRegisters int nat
  | ReadInputRegisters int nat
  | ReadCoils int nat
  | ReadDiscreteInputs int nat
  | Close

datatype reply = Throws | NoData | Data "cell list"

text \<open>The calls made on the OPC UA server; a variable is known by its node id.\<close>

datatype opc_call =
    GetOwnNamespace
  | AddFolder string
  | AddObject string
  | AddVariable string string string nat
  | SetValueFromSource string opc_type jsval
  | Dispose string

datatype event = Modbus nat call reply | Opcua opc_call bool

text \<open>
  Both libraries are outside the repository. They are parameters: what a call
  answers is a function of everything that happened before (the trace) and of the
  call. For the OPC UA side \<open>True\<close> is a normal return and \<open>False\<close> a throw.
\<close>

record env =
  transport :: "event list \<Rightarrow> nat \<Rightarrow> call \<Rightarrow> reply"
  opcua :: "event list \<Rightarrow> opc_call \<Rightarrow> bool"

text \<open>
  Device objects are shared by reference between the \<open>devices\<close> array and the
  interval callbacks, so they live in a heap. \<open>timers\<close> lists the intervals that
  \<open>setInterval\<close> has started, each with the device it closes over; nothing in the
  source ever calls \<open>clearInterval\<close>. The \<open>error\<close> and \<open>close\<close> handlers of a client,
  which fire between steps and only ever lower a device's \<open>connected\<close> flag, are left
  out, and a poll cycle runs from its first step to its last with nothing in between.
\<close>

record state =
  heap :: "nat \<Rightarrow> device"
  nextRef :: nat
  devices :: "nat list"
  modbusClients :: "string \<Rightarrow> nat option"
  nextClient :: nat
  opcuaVariables :: "string \<Rightarrow> (string \<times> string) list option"
  timers :: "(nat \<times> nat) list"
  trace :: "event list"

datatype 'a completion = Return 'a | Throw

datatype response = R200_device nat | R200 | R400 | R404 | R500

text \<open>\<open>Map.prototype.set\<close> on an insertion-ordered map.\<close>

fun mapSet :: "string \<Rightarrow> 'v \<Rightarrow> (string \<times> 'v) list \<Rightarrow> (string \<times> 'v) list" where
  "mapSet k v [] = [(k, v)]"
| "mapSet k v (p # ps) = (if fst p = k then (k, v) # ps else p # mapSet k v ps)"

text \<open>\<open>Array.prototype.findIndex\<close>; \<open>None\<close> is \<open>-1\<close>.\<close>

fun findIndex :: "('a \<Rightarrow> bool) \<Rightarrow> 'a list \<Rightarrow> nat option" where
  "findIndex P [] = None"
| "findIndex P (x # xs) =
     (if P x then Some 0 else (case findIndex P xs of None \<Rightarrow> None | Some i \<Rightarrow> Some (Suc i)))"

definition callModbus :: "env \<Rightarrow> nat \<Rightarrow> call \<Rightarrow> state \<Rightarrow> reply \<times> state" where
  "callModbus e cl c s =
     (let r = transport e (trace s) cl c in (r, s\<lparr>trace := trace s @ [Modbus cl c r]\<rparr>))"

definition opcCall :: "env \<Rightarrow> opc_call \<Rightarrow> state \<Rightarrow> bool \<times> state" where
  "opcCall e c s =
     (let ok = opcua e (trace s) c in (ok, s\<lparr>trace := trace s @ [Opcua c ok]\<rparr>))"

definition setConnected :: "nat \<Rightarrow> bool \<Rightarrow> state \<Rightarrow> state" where
  "setConnected ref b s = s\<lparr>heap := (heap s)(ref := (heap s ref)\<lparr>connected := b\<rparr>)\<rparr>"

section \<open>Connection\<close>

text \<open>The \<open>try\<close> block of \<open>connectToDevice\<close>.\<close>

definition connectTry :: "env \<Rightarrow> nat \<Rightarrow> nat \<Rightarrow> state \<Rightarrow> bool completion \<times> state" where
  "connectTry e ref cl s =
     (let d = heap s ref;
          (r1, s1) =
            (if dev_type d = ''tcp'' then
               callModbus e cl
                 (ConnectTCP (dev_address d) (if dev_port d = 0 then 502 else dev_port d)) s
             else if dev_type d = ''rtu'' then
               callModbus e cl
                 (ConnectRTUBuffered (dev_address d)
                    (if dev_baudRate d = 0 then 9600 else dev_baudRate d)) s
             else (NoData, s))
      in if r1 = Throws then (Throw, s1)
         else
           (let (r2, s2) =
                  callModbus e cl (SetID (if dev_deviceId d = 0 then 1 else dev_deviceId d)) s1
            in if r2 = Throws then (Throw, s2)
               else (Return True, setConnected ref True s2)))"

definition connectToDevice :: "env \<Rightarrow> nat \<Rightarrow> state \<Rightarrow> bool completion \<times> state" where
  "connectToDevice e ref s =
     (case modbusClients s (dev_id (heap s ref)) of
        None \<Rightarrow> (Return False, s)
      | Some cl \<Rightarrow>
          if connected (heap s ref) then (Return True, s)
          else
            (case connectTry e ref cl s of
               (Throw, s1) \<Rightarrow> (Return False, setConnected ref False s1)
             | (Return b, s1) \<Rightarrow> (Return b, s1)))"

section \<open>The poll cycle\<close>

definition readRequest :: "tag \<Rightarrow> call option" where
  "readRequest t =
     (if registerType t = ''holding'' then
        Some (ReadHoldingRegisters (tag_address t) (getRegisterCount (dataType t)))
      else if registerType t = ''input'' then
        Some (ReadInputRegisters (tag_address t) (getRegisterCount (dataType t)))
      else if registerType t = ''coil'' then Some (ReadCoils (tag_address t) 1)
      else if registerType t = ''discrete'' then Some (ReadDiscreteInputs (tag_address t) 1)
      else None)"

text \<open>\<open>opcuaVariables.get(device.id)?.get(tag.name)\<close>.\<close>

definition lookupVariable :: "(string \<times> string) list option \<Rightarrow> string \<Rightarrow> string option" where
  "lookupVariable vars n = (case vars of None \<Rightarrow> None | Some m \<Rightarrow> map_of m n)"

text \<open>The \<open>catch\<close> block of the loop body: the flag goes down and the client is closed,
  whatever the close answers.\<close>

definition onReadError :: "env \<Rightarrow> nat \<Rightarrow> event list \<Rightarrow> bool \<times> event list" where
  "onReadError e cl tr = (False, tr @ [Modbus cl Close (transport e tr cl Close)])"

text \<open>
  One pass of the loop body of \<open>readDeviceData\<close> for one tag. The loop state is the
  device's \<open>connected\<close> flag and the trace; the tag comes back updated or as it was.
\<close>

fun readTag ::
  "env \<Rightarrow> nat \<Rightarrow> (string \<times> string) list option \<Rightarrow> tag \<Rightarrow> bool \<times> event list
     \<Rightarrow> tag \<times> bool \<times> event list" where
  "readTag e cl vars t (conn, tr) =
     (case readRequest t of
        None \<Rightarrow> (t, conn, tr)
      | Some rq \<Rightarrow>
          (let r = transport e tr cl rq; tr1 = tr @ [Modbus cl rq r] in
           case r of
             Throws \<Rightarrow> (t, onReadError e cl tr1)
           | NoData \<Rightarrow> (t, conn, tr1)
           | Data d \<Rightarrow>
               (let v = convertModbusData d (dataType t);
                    t' = t\<lparr>currentValue := v\<rparr>
                in case lookupVariable vars (tag_name t) of
                     None \<Rightarrow> (t', conn, tr1)
                   | Some var \<Rightarrow>
                       (let c = SetValueFromSource var (getOPCUADataTypeCode (dataType t)) v;
                            ok = opcua e tr1 c;
                            tr2 = tr1 @ [Opcua c ok]
                        in if ok then (t', conn, tr2) else (t', onReadError e cl tr2)))))"

fun readTags ::
  "env \<Rightarrow> nat \<Rightarrow> (string \<times> string) list option \<Rightarrow> tag list \<Rightarrow> bool \<times> event list
     \<Rightarrow> tag list \<times> bool \<times> event list" where
  "readTags e cl vars [] st = ([], st)"
| "readTags e cl vars (t # ts) st =
     (case readTag e cl vars t st of
        (t', st1) \<Rightarrow> (case readTags e cl vars ts st1 of (ts', st2) \<Rightarrow> (t' # ts', st2)))"

text \<open>
  \<open>readDeviceData\<close>, run to its end without interleaving. Should \<open>connectToDevice\<close>
  throw, the cycle ends there with the state as it is.
\<close>

definition readDeviceData :: "env \<Rightarrow> nat \<Rightarrow> state \<Rightarrow> state" where
  "readDeviceData e ref s =
     (case modbusClients s (dev_id (heap s ref)) of
        None \<Rightarrow> s
      | Some cl \<Rightarrow>
          (case (if \<not> connected (heap s ref) then connectToDevice e ref s else (Return True, s)) of
             (c, s1) \<Rightarrow>
               if c \<noteq> Return True then s1
               else
                 (let d = heap s1 ref in
                  case readTags e cl (opcuaVariables s1 (dev_id d)) (tags d)
                         (connected d, trace s1) of
                    (ts, conn, tr) \<Rightarrow>
                      s1\<lparr>heap := (heap s1)(ref := d\<lparr>connected := conn, tags := ts\<rparr>),
                         trace := tr\<rparr>)))"

text \<open>The \<open>k\<close>-th interval fires: its callback runs \<open>readDeviceData\<close> on the device it
  closed over.\<close>

definition tick :: "env \<Rightarrow> nat \<Rightarrow> state \<Rightarrow> state" where
  "tick e k s = (if k < length (timers s) then readDeviceData e (fst (timers s ! k)) s else s)"

text \<open>The read calls in a trace, in order.\<close>

fun isRead :: "call \<Rightarrow> bool" where
  "isRead (ReadHoldingRegisters a n) = True"
| "isRead (ReadInputRegisters a n) = True"
| "isRead (ReadCoils a n) = True"
| "isRead (ReadDiscreteInputs a n) = True"
| "isRead c = False"

fun readsOf :: "event list \<Rightarrow> call list" where
  "readsOf [] = []"
| "readsOf (Modbus cl c r # es) = (if isRead c then c # readsOf es else readsOf es)"
| "readsOf (Opcua c ok # es) = readsOf es"

section \<open>Registering and removing devices\<close>

fun addTagVariables :: "env \<Rightarrow> device \<Rightarrow> tag list \<Rightarrow> state \<Rightarrow> bool \<times> state" where
  "addTagVariables e d [] s = (True, s)"
| "addTagVariables e d (t # ts) s =
     (let nodeId = ''s='' @ dev_id d @ ''_'' @ tag_name t in
      case opcCall e
             (AddVariable (tag_name t) nodeId (getOPCUADataType (dataType t))
                (if dev_pollInterval d = 0 then 1000 else dev_pollInterval d)) s of
        (ok, s1) \<Rightarrow>
          if \<not> ok then (False, s1)
          else
            addTagVariables e d ts
              (s1\<lparr>opcuaVariables := (opcuaVariables s1)
                    (dev_id d \<mapsto>
                       mapSet (tag_name t) nodeId
                         (case opcuaVariables s1 (dev_id d) of None \<Rightarrow> [] | Some m \<Rightarrow> m))\<rparr>))"

definition initializeOPCUADevice :: "env \<Rightarrow> nat \<Rightarrow> state \<Rightarrow> bool \<times> state" where
  "initializeOPCUADevice e ref s =
     (let d = heap s ref in
      case opcCall e (AddObject (dev_name d)) s of
        (ok, s1) \<Rightarrow> if \<not> ok then (False, s1) else addTagVariables e d (tags d) s1)"

definition initializeModbusClient :: "nat \<Rightarrow> state \<Rightarrow> state" where
  "initializeModbusClient ref s =
     s\<lparr>modbusClients := (modbusClients s)(dev_id (heap s ref) \<mapsto> nextClient s),
       nextClient := Suc (nextClient s)\<rparr>"

definition startDevicePolling :: "nat \<Rightarrow> state \<Rightarrow> state" where
  "startDevicePolling ref s =
     s\<lparr>timers := timers s @
         [(ref, if dev_pollInterval (heap s ref) = 0 then 2000
                else dev_pollInterval (heap s ref))]\<rparr>"

text \<open>\<open>initializeDevice\<close>; \<open>False\<close> when one of its OPC UA calls throws, with the
  state as the throw leaves it.\<close>

definition initializeDevice :: "env \<Rightarrow> nat \<Rightarrow> state \<Rightarrow> bool \<times> state" where
  "initializeDevice e ref s =
     (case opcCall e GetOwnNamespace s of
        (ok0, s0) \<Rightarrow>
          if \<not> ok0 then (False, s0)
          else
            (case opcCall e (AddFolder ''ModbusDevices'') s0 of
               (ok1, s1) \<Rightarrow>
                 if \<not> ok1 then (False, s1)
                 else
                   (case initializeOPCUADevice e ref s1 of
                      (ok2, s2) \<Rightarrow>
                        if \<not> ok2 then (False, s2)
                        else (True, startDevicePolling ref (initializeModbusClient ref s2)))))"

definition mkDevice :: "string \<Rightarrow> body \<Rightarrow> tag list \<Rightarrow> device" where
  "mkDevice now b ts =
     \<lparr>dev_id = (if b_id b = [] then now else b_id b), dev_name = b_name b,
      dev_type = b_type b, dev_address = b_address b, dev_port = b_port b,
      dev_baudRate = b_baudRate b, dev_deviceId = b_deviceId b,
      dev_pollInterval = b_pollInterval b, connected = b_connected b, tags = ts\<rparr>"

text \<open>
  \<open>POST /api/devices\<close>. \<open>now\<close> is \<open>Date.now().toString()\<close>. Writing the configuration
  file catches its own errors and changes nothing here. \<open>R400\<close> is the validation
  error, \<open>R500\<close> the answer of the handler's \<open>catch\<close>.
\<close>

definition post_devices :: "env \<Rightarrow> string \<Rightarrow> body \<Rightarrow> state \<Rightarrow> response \<times> state" where
  "post_devices e now b s =
     (case b_tags b of
        None \<Rightarrow> (R400, s)
      | Some ts \<Rightarrow>
          if b_name b = [] \<or> b_type b = [] then (R400, s)
          else
            (let ref = nextRef s;
                 s1 = s\<lparr>heap := (heap s)(ref := mkDevice now b ts), nextRef := Suc ref,
                        devices := devices s @ [ref]\<rparr>
             in case initializeDevice e ref s1 of
                  (ok, s2) \<Rightarrow> (if ok then R200_device ref else R500, s2)))"

fun disposeAll :: "env \<Rightarrow> string list \<Rightarrow> event list \<Rightarrow> bool \<times> event list" where
  "disposeAll e [] tr = (True, tr)"
| "disposeAll e (v # vs) tr =
     (let ok = opcua e tr (Dispose v); tr1 = tr @ [Opcua (Dispose v) ok]
      in if ok then disposeAll e vs tr1 else (False, tr1))"

definition removeDeviceVariables :: "env \<Rightarrow> string \<Rightarrow> state \<Rightarrow> bool \<times> state" where
  "removeDeviceVariables e deviceId s =
     (case opcuaVariables s deviceId of
        None \<Rightarrow> (True, s)
      | Some vars \<Rightarrow>
          (case disposeAll e (map snd vars) (trace s) of
             (ok, tr) \<Rightarrow>
               if ok then
                 (True, s\<lparr>opcuaVariables := (opcuaVariables s)(deviceId := None), trace := tr\<rparr>)
               else (False, s\<lparr>trace := tr\<rparr>)))"

text \<open>\<open>DELETE /api/devices/:id\<close>. The close of the client is not awaited and its
  rejection is dropped.\<close>

definition delete_devices :: "env \<Rightarrow> string \<Rightarrow> state \<Rightarrow> response \<times> state" where
  "delete_devices e deviceId s =
     (case findIndex (\<lambda>r. dev_id (heap s r) = deviceId) (devices s) of
        None \<Rightarrow> (R404, s)
      | Some index \<Rightarrow>
          (case removeDeviceVariables e deviceId s of
             (ok, s1) \<Rightarrow>
               if \<not> ok then (R500, s1)
               else
                 (let s2 =
                        (case modbusClients s1 deviceId of
                           None \<Rightarrow> s1
                         | Some cl \<Rightarrow>
                             (snd (callModbus e cl Close s1))
                               \<lparr>modbusClients := (modbusClients s1)(deviceId := None)\<rparr>)
                  in (R200,
                      s2\<lparr>devices := take index (devices s2) @ drop (Suc index) (devices s2)\<rparr>))))"

section \<open>The snapshot of current values\<close>




section \<open>A sample installation\<close>

text \<open>
  A transport whose holding register 1 cannot be read and whose host \<open>unreachable\<close>
  refuses the connection, with everything else answering; an OPC UA server that
  accepts every call; and a registry holding one TCP device with the given tags, its
  client, its variables and its interval.
\<close>

definition ex_env :: env where
  "ex_env =
     \<lparr>transport = (\<lambda>tr cl c.
        case c of
          ConnectTCP host port \<Rightarrow> (if host = ''unreachable'' then Throws else NoData)
        | ConnectRTUBuffered path baud \<Rightarrow> NoData
        | SetID n \<Rightarrow> NoData
        | ReadHoldingRegisters a n \<Rightarrow> (if a = 1 then Throws else Data [Reg 7, Reg 9])
        | ReadInputRegisters a n \<Rightarrow> Data [Reg 7, Reg 9]
        | ReadCoils a n \<Rightarrow> Data [Bit True, Bit False]
        | ReadDiscreteInputs a n \<Rightarrow> Data [Bit True, Bit False]
        | Close \<Rightarrow> NoData),
      opcua = (\<lambda>tr c. True)\<rparr>"

definition ex_tag :: "string \<Rightarrow> string \<Rightarrow> int \<Rightarrow> string \<Rightarrow> tag" where
  "ex_tag n rt a dt =
     \<lparr>tag_name = n, registerType = rt, tag_address = a, dataType = dt, currentValue = Undefined\<rparr>"

definition ex_device :: "bool \<Rightarrow> tag list \<Rightarrow> device" where
  "ex_device c ts =
     \<lparr>dev_id = ''d1'', dev_name = ''Device 1'', dev_type = ''tcp'', dev_address = ''10.0.0.1'',
      dev_port = 0, dev_baudRate = 0, dev_deviceId = 0, dev_pollInterval = 0,
      connected = c, tags = ts\<rparr>"

definition ex_state :: "bool \<Rightarrow> tag list \<Rightarrow> state" where
  "ex_state c ts =
     \<lparr>heap = (\<lambda>r. ex_device c ts), nextRef = 1, devices = [0],
      modbusClients = [''d1'' \<mapsto> 0], nextClient = 1,
      opcuaVariables = [''d1'' \<mapsto> map (\<lambda>t. (tag_name t, ''s=d1_'' @ tag_name t)) ts],
      timers = [(0, 2000)], trace = []\<rparr>"

definition ex_body :: "string \<Rightarrow> tag list option \<Rightarrow> body" where
  "ex_body i ts =
     \<lparr>b_id = i, b_name = ''Device 2'', b_type = ''tcp'', b_address = ''10.0.0.2'', b_port = 0,
      b_baudRate = 0, b_deviceId = 0, b_pollInterval = 0, b_connected = False, b_tags = ts\<rparr>"

text \<open>
  The same transport with a client that, like a port that is no longer open, refuses
  every read once \<open>close\<close> has been called on it.
\<close>

fun closedClient :: "nat \<Rightarrow> event list \<Rightarrow> bool" where
  "closedClient cl [] = False"
| "closedClient cl (Modbus c rq r # es) = (if c = cl \<and> rq = Close then True else closedClient cl es)"
| "closedClient cl (Opcua c ok # es) = closedClient cl es"

definition ex_env_closing :: env where
  "ex_env_closing =
     \<lparr>transport = (\<lambda>tr cl c.
        if isRead c \<and> closedClient cl tr then Throws else transport ex_env tr cl c),
      opcua = opcua ex_env\<rparr>"

lemmas ex_defs = ex_env_def ex_tag_def ex_device_def ex_state_def

section \<open>Properties of the register codec\<close>

lemma idx_Cons_0: "idx (x # xs) 0 = Some x"
  by (simp add: idx_def)

lemma toInt32_small: "- 2147483648 \<le> n \<Longrightarrow> n < 2147483648 \<Longrightarrow> toInt32 (Some n) = n"
  by (simp add: toInt32_def)

lemma js_shl_Reg_16:
  "js_shl (Some (Reg w)) 16 =
     (if uint w < 32768 then uint w * 65536 else uint w * 65536 - 4294967296)"
proof -
  have b: "0 \<le> uint w" "uint w < 65536"
    using uint_lt2p [of w] by simp_all
  then have a: "toInt32 (Some (uint w)) = uint w"
    by (intro toInt32_small) linarith+
  show ?thesis
  proof (cases "uint w < 32768")
    case True
    with b have "toInt32 (Some (uint w * 65536)) = uint w * 65536"
      by (intro toInt32_small) linarith+
    with True a show ?thesis by (simp add: js_shl_def)
  next
    case False
    have "(uint w * 65536 + 2147483648) mod 4294967296
        = uint w * 65536 + 2147483648 - 4294967296"
    proof -
      have "(uint w * 65536 + 2147483648 - 4294967296) mod 4294967296
          = uint w * 65536 + 2147483648 - 4294967296"
        using b False by (intro mod_pos_pos_trivial) linarith+
      then show ?thesis
        by (simp only: minus_mod_self2)
    qed
    with False a show ?thesis by (simp add: js_shl_def toInt32_def)
  qed
qed

text \<open>
  What the two 32-bit cases compute from two register words: the combination
  \<open>hi * 65536 + lo\<close> read as a signed 32-bit integer, for \<open>int32\<close> and for \<open>uint32\<close>
  alike.
\<close>

lemma convert_32_Reg:
  assumes "dt = ''int32'' \<or> dt = ''uint32''"
  shows "convertModbusData (Reg hi # Reg lo # rest) dt =
     Num (if uint hi * 65536 + uint lo < 2147483648 then uint hi * 65536 + uint lo
          else uint hi * 65536 + uint lo - 4294967296)"
proof -
  have b: "0 \<le> uint lo" "uint lo < 65536"
    using uint_lt2p [of lo] by simp_all
  have "convertModbusData (Reg hi # Reg lo # rest) dt = Num (js_shl (Some (Reg hi)) 16 + uint lo)"
    using assms by (auto simp add: convertModbusData_def idx_def js_add_def)
  moreover have "(uint hi < 32768) = (uint hi * 65536 + uint lo < 2147483648)"
    using b by arith
  ultimately show ?thesis
    by (simp add: js_shl_Reg_16)
qed

text \<open>
  C5. Two 16-bit words decoded as \<open>uint32\<close> should give the non-negative combination
  \<open>words[0] * 65536 + words[1]\<close>. At the words \<open>0x8000, 0x0000\<close> the combination is
  2147483648, and the decoder returns \<open>-2147483648\<close>: the left shift yields a signed
  32-bit integer, and the \<open>uint32\<close> case does nothing to make it unsigned again.
\<close>

theorem uint32_high_word_negative:
  "convertModbusData [Reg 32768, Reg 0] ''uint32'' = Num (- 2147483648)"
  by (simp add: convertModbusData_def js_add_def js_shl_def toInt32_def idx_def)

text \<open>
  C8. A single word \<open>w\<close> decoded as \<open>int16\<close> is \<open>w\<close> below 32768 and \<open>w - 65536\<close> from
  32768 on; decoded as \<open>uint16\<close> it is \<open>w\<close>. The boundary words 32767, 32768, 0 and
  65535 decode to 32767, -32768, 0 and 65535.
\<close>

theorem int16_uint16_decode:
  "convertModbusData (Reg w # rest) ''int16'' =
     Num (if uint w < 32768 then uint w else uint w - 65536)
   \<and> convertModbusData (Reg w # rest) ''uint16'' = Num (uint w)
   \<and> convertModbusData [Reg 32767] ''int16'' = Num 32767
   \<and> convertModbusData [Reg 32768] ''int16'' = Num (- 32768)
   \<and> convertModbusData [Reg 0] ''uint16'' = Num 0
   \<and> convertModbusData [Reg 65535] ''uint16'' = Num 65535"
  by (simp add: convertModbusData_def idx_Cons_0 js_gt_def js_sub_def)

text \<open>The theorem of C8 at the word 40000.\<close>

theorem int16_uint16_decode_witness:
  "convertModbusData [Reg 40000] ''int16'' = Num (- 25536)
   \<and> convertModbusData [Reg 40000] ''uint16'' = Num 40000"
  using int16_uint16_decode [of 40000 "[]"] by simp

section \<open>Properties of the poll cycle\<close>

lemma readsOf_append: "readsOf (xs @ ys) = readsOf xs @ readsOf ys"
  by (induction xs rule: readsOf.induct) auto

lemma readRequest_isRead: "readRequest t = Some rq \<Longrightarrow> isRead rq"
  by (auto simp add: readRequest_def split: if_splits)

lemma readTag_reads:
  "readsOf (snd (snd (readTag e cl vars t (conn, tr)))) =
     readsOf tr @ (case readRequest t of None \<Rightarrow> [] | Some rq \<Rightarrow> [rq])"
  by (auto simp add: readsOf_append onReadError_def Let_def readRequest_isRead
      split: option.splits reply.splits)

lemma readTags_reads:
  "readsOf (snd (snd (readTags e cl vars ts st))) = readsOf (snd st) @ List.map_filter readRequest ts"
proof (induction ts arbitrary: st)
  case Nil
  then show ?case by simp
next
  case (Cons t ts)
  obtain conn tr where st: "st = (conn, tr)" by (cases st)
  obtain t' st1 where r: "readTag e cl vars t (conn, tr) = (t', st1)" by (cases "readTag e cl vars t (conn, tr)")
  have "readsOf (snd st1) = readsOf tr @ (case readRequest t of None \<Rightarrow> [] | Some rq \<Rightarrow> [rq])"
    using readTag_reads [of e cl vars t conn tr] r by simp
  then show ?case
    using Cons.IH [of st1] r st
    by (auto split: prod.splits option.splits)
qed

declare readTag.simps [simp del]

lemma readTags_append:
  "readTags e cl vars (xs @ ys) st =
     (case readTags e cl vars xs st of
        (xs', st1) \<Rightarrow> (case readTags e cl vars ys st1 of (ys', st2) \<Rightarrow> (xs' @ ys', st2)))"
  by (induction xs arbitrary: st) (auto split: prod.splits)

lemma readTags_length: "length (fst (readTags e cl vars ts st)) = length ts"
proof (induction ts arbitrary: st)
  case Nil
  then show ?case by simp
next
  case (Cons t ts)
  obtain t' st1 where r: "readTag e cl vars t st = (t', st1)"
    by (cases "readTag e cl vars t st")
  show ?case
    using Cons.IH [of st1] r by (auto split: prod.splits)
qed

lemma callModbus_fields [simp]:
  "heap (snd (callModbus e cl c s)) = heap s"
  "modbusClients (snd (callModbus e cl c s)) = modbusClients s"
  "opcuaVariables (snd (callModbus e cl c s)) = opcuaVariables s"
  "devices (snd (callModbus e cl c s)) = devices s"
  "timers (snd (callModbus e cl c s)) = timers s"
  "nextRef (snd (callModbus e cl c s)) = nextRef s"
  "trace (snd (callModbus e cl c s)) = trace s @ [Modbus cl c (transport e (trace s) cl c)]"
  "fst (callModbus e cl c s) = transport e (trace s) cl c"
  by (simp_all add: callModbus_def Let_def)

lemma setConnected_fields [simp]:
  "heap (setConnected ref b s) ref = (heap s ref)\<lparr>connected := b\<rparr>"
  "r \<noteq> ref \<Longrightarrow> heap (setConnected ref b s) r = heap s r"
  "modbusClients (setConnected ref b s) = modbusClients s"
  "opcuaVariables (setConnected ref b s) = opcuaVariables s"
  "devices (setConnected ref b s) = devices s"
  "timers (setConnected ref b s) = timers s"
  "trace (setConnected ref b s) = trace s"
  by (simp_all add: setConnected_def)

lemma connectTry_Throw:
  "connectTry e ref cl s = (Throw, s1) \<Longrightarrow>
     heap s1 = heap s \<and> modbusClients s1 = modbusClients s \<and> opcuaVariables s1 = opcuaVariables s
     \<and> devices s1 = devices s \<and> timers s1 = timers s \<and> readsOf (trace s1) = readsOf (trace s)"
  by (auto simp add: connectTry_def callModbus_def Let_def readsOf_append split: if_splits)

lemma connectTry_Return:
  "connectTry e ref cl s = (Return b, s1) \<Longrightarrow>
     b \<and> heap s1 = (heap s)(ref := (heap s ref)\<lparr>connected := True\<rparr>)
     \<and> modbusClients s1 = modbusClients s \<and> opcuaVariables s1 = opcuaVariables s
     \<and> devices s1 = devices s \<and> timers s1 = timers s \<and> readsOf (trace s1) = readsOf (trace s)"
  by (auto simp add: connectTry_def callModbus_def Let_def readsOf_append setConnected_def
      split: if_splits)

lemma connectToDevice_True:
  assumes "connectToDevice e ref s = (Return True, s1)"
  shows "connected (heap s1 ref) \<and> tags (heap s1 ref) = tags (heap s ref)
     \<and> dev_id (heap s1 ref) = dev_id (heap s ref)
     \<and> opcuaVariables s1 = opcuaVariables s \<and> readsOf (trace s1) = readsOf (trace s)"
proof (cases "modbusClients s (dev_id (heap s ref))")
  case None
  with assms show ?thesis by (simp add: connectToDevice_def)
next
  case (Some cl)
  show ?thesis
  proof (cases "connected (heap s ref)")
    case True
    with assms Some show ?thesis by (simp add: connectToDevice_def)
  next
    case False
    obtain c s2 where ct: "connectTry e ref cl s = (c, s2)" by (cases "connectTry e ref cl s")
    show ?thesis
    proof (cases c)
      case (Return b)
      with assms Some False ct have "s1 = s2" by (simp add: connectToDevice_def)
      with connectTry_Return [of e ref cl s b s2] ct Return show ?thesis by simp
    next
      case Throw
      with assms Some False ct show ?thesis by (simp add: connectToDevice_def)
    qed
  qed
qed

lemma readDeviceData_eq:
  assumes "modbusClients s (dev_id (heap s ref)) = Some cl"
  shows "readDeviceData e ref s =
     (case connectToDevice e ref s of
        (c, s1) \<Rightarrow>
          if c \<noteq> Return True then s1
          else
            (case readTags e cl (opcuaVariables s (dev_id (heap s ref))) (tags (heap s ref))
                    (True, trace s1) of
               (ts, conn, tr) \<Rightarrow>
                 s1\<lparr>heap := (heap s1)(ref := (heap s1 ref)\<lparr>connected := conn, tags := ts\<rparr>),
                    trace := tr\<rparr>))"
proof (cases "connected (heap s ref)")
  case True
  with assms show ?thesis
    by (simp add: readDeviceData_def connectToDevice_def Let_def)
next
  case False
  obtain c s1 where c: "connectToDevice e ref s = (c, s1)" by (cases "connectToDevice e ref s")
  show ?thesis
  proof (cases "c = Return True")
    case True
    with c connectToDevice_True [of e ref s s1] assms False show ?thesis
      by (simp add: readDeviceData_def Let_def)
  next
    case False
    with c assms \<open>\<not> connected (heap s ref)\<close> show ?thesis
      by (simp add: readDeviceData_def Let_def)
  qed
qed

lemma readDeviceData_tags:
  assumes cl: "modbusClients s (dev_id (heap s ref)) = Some cl"
    and co: "connectToDevice e ref s = (Return True, s1)"
  shows "tags (heap (readDeviceData e ref s) ref) =
           fst (readTags e cl (opcuaVariables s (dev_id (heap s ref))) (tags (heap s ref)) (True, trace s1))"
    and "connected (heap (readDeviceData e ref s) ref) =
           fst (snd (readTags e cl (opcuaVariables s (dev_id (heap s ref))) (tags (heap s ref)) (True, trace s1)))"
    and "trace (readDeviceData e ref s) =
           snd (snd (readTags e cl (opcuaVariables s (dev_id (heap s ref))) (tags (heap s ref)) (True, trace s1)))"
  using readDeviceData_eq [OF cl, of e] co by (simp_all split: prod.splits)

lemma readTag_Data:
  "readRequest t = Some rq \<Longrightarrow> transport e tr cl rq = Data d \<Longrightarrow>
     fst (readTag e cl vars t (conn, tr)) = t\<lparr>currentValue := convertModbusData d (dataType t)\<rparr>"
  by (simp add: readTag.simps Let_def split: option.splits)

lemma readTags_split:
  assumes "readTags e cl vars pre st = (pre', st1)"
  shows "fst (readTags e cl vars (pre @ t # post) st) =
           pre' @ fst (readTag e cl vars t st1)
             # fst (readTags e cl vars post (snd (readTag e cl vars t st1)))"
  using assms by (simp add: readTags_append split: prod.splits)

lemma readTags_preserves_length:
  "readTags e cl vars pre st = (pre', st1) \<Longrightarrow> length pre' = length pre"
  using readTags_length [of e cl vars pre st] by simp

lemma convert_Bit_Bool:
  "dt \<noteq> ''float'' \<Longrightarrow> dt \<noteq> ''int32'' \<Longrightarrow> dt \<noteq> ''uint32'' \<Longrightarrow>
     convertModbusData (Bit b # rest) dt = Bool b"
  by (simp add: convertModbusData_def idx_Cons_0 js_gt_def)

lemma convert_wide_not_Bool:
  "dt = ''float'' \<or> dt = ''int32'' \<or> dt = ''uint32'' \<Longrightarrow> convertModbusData d dt \<noteq> Bool b'"
  by (auto simp add: convertModbusData_def js_add_def split: option.splits)

text \<open>
  C9. \<open>getRegisterCount\<close> is 2 for the 32-bit types (the float type is spelt \<open>float\<close>
  in the configuration) and 1 for \<open>int16\<close>, \<open>uint16\<close> and \<open>boolean\<close>; the read issued for
  a holding or input tag asks for exactly that many words; and the reads of a poll
  cycle that gets past the connection are the requests of the device's tags, one
  after the other.
\<close>

theorem getRegisterCount_requests:
  "getRegisterCount ''float'' = 2 \<and> getRegisterCount ''int32'' = 2
   \<and> getRegisterCount ''uint32'' = 2 \<and> getRegisterCount ''int16'' = 1
   \<and> getRegisterCount ''uint16'' = 1 \<and> getRegisterCount ''boolean'' = 1
   \<and> (dataType t \<noteq> ''float'' \<and> dataType t \<noteq> ''int32'' \<and> dataType t \<noteq> ''uint32'' \<longrightarrow>
        getRegisterCount (dataType t) = 1)
   \<and> (registerType t = ''holding'' \<longrightarrow>
        readRequest t =
          Some (ReadHoldingRegisters (tag_address t) (getRegisterCount (dataType t))))
   \<and> (registerType t = ''input'' \<longrightarrow>
        readRequest t =
          Some (ReadInputRegisters (tag_address t) (getRegisterCount (dataType t))))
   \<and> (modbusClients s (dev_id (heap s ref)) = Some cl \<longrightarrow>
        connectToDevice e ref s = (Return True, s1) \<longrightarrow>
        readsOf (trace (readDeviceData e ref s)) =
          readsOf (trace s) @ List.map_filter readRequest (tags (heap s ref)))"
proof -
  have "readsOf (trace (readDeviceData e ref s)) =
          readsOf (trace s) @ List.map_filter readRequest (tags (heap s ref))"
    if cl: "modbusClients s (dev_id (heap s ref)) = Some cl"
      and co: "connectToDevice e ref s = (Return True, s1)"
    using readDeviceData_tags(3) [OF cl co] connectToDevice_True [OF co]
    by (simp add: readTags_reads)
  then show ?thesis
    by (simp add: getRegisterCount_def readRequest_def)
qed

text \<open>The theorem of C9 at a connected device with one float holding tag at address 97.\<close>

theorem getRegisterCount_requests_witness:
  "registerType (ex_tag ''t1'' ''holding'' 97 ''float'') = ''holding''
   \<and> modbusClients (ex_state True [ex_tag ''t1'' ''holding'' 97 ''float'']) ''d1'' = Some 0
   \<and> connectToDevice ex_env 0 (ex_state True [ex_tag ''t1'' ''holding'' 97 ''float'']) =
       (Return True, ex_state True [ex_tag ''t1'' ''holding'' 97 ''float''])
   \<and> readsOf (trace (readDeviceData ex_env 0 (ex_state True [ex_tag ''t1'' ''holding'' 97 ''float'']))) =
     [ReadHoldingRegisters 97 2]"
  using getRegisterCount_requests
    [of "ex_tag ''t1'' ''holding'' 97 ''float''"
        "ex_state True [ex_tag ''t1'' ''holding'' 97 ''float'']" 0 0 ex_env
        "ex_state True [ex_tag ''t1'' ''holding'' 97 ''float'']"]
  by (simp add: ex_defs connectToDevice_def readRequest_def getRegisterCount_def)

text \<open>
  C1, amended. In a poll cycle, the value written to a coil or discrete tag after a
  read that returned the bits \<open>b, ...\<close> is what \<open>convertModbusData\<close> makes of those bits
  for the tag's \<open>dataType\<close>. It is the boolean \<open>b\<close> when the \<open>dataType\<close> is none of \<open>float\<close>,
  \<open>int32\<close>, \<open>uint32\<close>; for these three it is a number, never the boolean.
\<close>

theorem coil_read_value:
  assumes cl: "modbusClients s (dev_id (heap s ref)) = Some cl"
    and co: "connectToDevice e ref s = (Return True, s1)"
    and tg: "tags (heap s ref) = pre @ t # post"
    and rt: "registerType t = ''coil'' \<or> registerType t = ''discrete''"
    and pre: "readTags e cl (opcuaVariables s (dev_id (heap s ref))) pre (True, trace s1) =
                (pre', conn, tr)"
    and rd: "transport e tr cl
               (if registerType t = ''coil'' then ReadCoils (tag_address t) 1
                else ReadDiscreteInputs (tag_address t) 1) = Data (Bit b # rest)"
  shows "currentValue (tags (heap (readDeviceData e ref s) ref) ! length pre) =
           convertModbusData (Bit b # rest) (dataType t)
         \<and> (dataType t \<noteq> ''float'' \<and> dataType t \<noteq> ''int32'' \<and> dataType t \<noteq> ''uint32'' \<longrightarrow>
              currentValue (tags (heap (readDeviceData e ref s) ref) ! length pre) = Bool b)
         \<and> (dataType t = ''float'' \<or> dataType t = ''int32'' \<or> dataType t = ''uint32'' \<longrightarrow>
              currentValue (tags (heap (readDeviceData e ref s) ref) ! length pre) \<noteq> Bool b)"
proof -
  let ?rq = "if registerType t = ''coil'' then ReadCoils (tag_address t) 1
             else ReadDiscreteInputs (tag_address t) 1"
  let ?vars = "opcuaVariables s (dev_id (heap s ref))"
  have rq: "readRequest t = Some ?rq"
    using rt by (auto simp add: readRequest_def)
  have "tags (heap (readDeviceData e ref s) ref) =
          pre' @ fst (readTag e cl ?vars t (conn, tr))
            # fst (readTags e cl ?vars post (snd (readTag e cl ?vars t (conn, tr))))"
    using readDeviceData_tags(1) [OF cl co] tg readTags_split [OF pre] by simp
  moreover have "length pre' = length pre"
    using pre by (rule readTags_preserves_length)
  ultimately have "tags (heap (readDeviceData e ref s) ref) ! length pre =
      fst (readTag e cl ?vars t (conn, tr))"
    by (simp add: nth_append)
  then have v: "currentValue (tags (heap (readDeviceData e ref s) ref) ! length pre) =
      convertModbusData (Bit b # rest) (dataType t)"
    using readTag_Data [OF rq rd] by simp
  show ?thesis
    using v convert_Bit_Bool [of "dataType t" b rest]
      convert_wide_not_Bool [of "dataType t" "Bit b # rest" b]
    by auto
qed

text \<open>The theorem of C1 at a device with one coil tag of type \<open>boolean\<close>.\<close>

theorem coil_read_value_witness:
  "registerType (ex_tag ''c1'' ''coil'' 3 ''boolean'') = ''coil''
   \<and> transport ex_env [] 0 (ReadCoils 3 1) = Data [Bit True, Bit False]
   \<and> connectToDevice ex_env 0 (ex_state True [ex_tag ''c1'' ''coil'' 3 ''boolean'']) =
       (Return True, ex_state True [ex_tag ''c1'' ''coil'' 3 ''boolean''])
   \<and> currentValue (tags (heap (readDeviceData ex_env 0
      (ex_state True [ex_tag ''c1'' ''coil'' 3 ''boolean''])) 0) ! 0) = Bool True"
  using coil_read_value
    [of "ex_state True [ex_tag ''c1'' ''coil'' 3 ''boolean'']" 0 0 ex_env
        "ex_state True [ex_tag ''c1'' ''coil'' 3 ''boolean'']" "[]"
        "ex_tag ''c1'' ''coil'' 3 ''boolean''" "[]" "[]" True "[]" True "[Bit False]"]
  by (simp add: ex_defs connectToDevice_def convertModbusData_def idx_def)

text \<open>
  C1 as stated fails: a coil tag declared \<open>int32\<close> whose read returns the bit \<open>true\<close>
  ends the cycle with the number 65536 as its value.
\<close>

theorem coil_read_counterexample:
  "registerType (ex_tag ''c1'' ''coil'' 3 ''int32'') = ''coil''
   \<and> transport ex_env [] 0 (ReadCoils 3 1) = Data [Bit True, Bit False]
   \<and> currentValue (tags (heap (readDeviceData ex_env 0
        (ex_state True [ex_tag ''c1'' ''coil'' 3 ''int32''])) 0) ! 0) = Num 65536"
  by (simp add: ex_defs readDeviceData_def Let_def readTag.simps readRequest_def
      lookupVariable_def convertModbusData_def js_add_def js_shl_def toInt32_def idx_def
      getOPCUADataTypeCode_def)

text \<open>
  C2. When the read of a tag fails, the cycle should stop there, with no read of a
  later tag attempted. The sample device with two holding tags, the first at the
  register that cannot be read, polled through a client that refuses reads once it is
  closed: the first read throws, the loop lowers the flag and closes the client, and
  then goes on and issues the read of the second tag in the same cycle, on the client
  it has just closed.
\<close>

theorem read_failure_reads_next_tag:
  "transport ex_env_closing [] 0 (ReadHoldingRegisters 1 1) = Throws
   \<and> take 3 (trace (readDeviceData ex_env_closing 0
        (ex_state True [ex_tag ''t1'' ''holding'' 1 ''uint16'',
                        ex_tag ''t2'' ''holding'' 2 ''uint16'']))) =
       [Modbus 0 (ReadHoldingRegisters 1 1) Throws, Modbus 0 Close NoData,
        Modbus 0 (ReadHoldingRegisters 2 1) Throws]
   \<and> readsOf (trace (readDeviceData ex_env_closing 0
        (ex_state True [ex_tag ''t1'' ''holding'' 1 ''uint16'',
                        ex_tag ''t2'' ''holding'' 2 ''uint16'']))) =
       [ReadHoldingRegisters 1 1, ReadHoldingRegisters 2 1]"
  by (simp add: ex_defs ex_env_closing_def readDeviceData_def Let_def readTag.simps
      readRequest_def lookupVariable_def onReadError_def getRegisterCount_def)

section \<open>Properties of registering and removing devices\<close>

lemma opcCall_fields [simp]:
  "heap (snd (opcCall e c s)) = heap s"
  "devices (snd (opcCall e c s)) = devices s"
  "nextRef (snd (opcCall e c s)) = nextRef s"
  "timers (snd (opcCall e c s)) = timers s"
  "modbusClients (snd (opcCall e c s)) = modbusClients s"
  by (simp_all add: opcCall_def Let_def)

lemma addTagVariables_fields:
  "heap (snd (addTagVariables e d ts s)) = heap s
   \<and> devices (snd (addTagVariables e d ts s)) = devices s
   \<and> nextRef (snd (addTagVariables e d ts s)) = nextRef s"
proof (induction ts arbitrary: s)
  case Nil
  then show ?case by simp
next
  case (Cons t ts)
  show ?case
    by (simp add: Let_def Cons.IH opcCall_def)
qed

lemma initializeOPCUADevice_fields:
  "heap (snd (initializeOPCUADevice e ref s)) = heap s
   \<and> devices (snd (initializeOPCUADevice e ref s)) = devices s
   \<and> nextRef (snd (initializeOPCUADevice e ref s)) = nextRef s"
  by (simp add: initializeOPCUADevice_def Let_def opcCall_def addTagVariables_fields)

lemma initializeDevice_fields:
  "heap (snd (initializeDevice e ref s)) = heap s
   \<and> devices (snd (initializeDevice e ref s)) = devices s
   \<and> nextRef (snd (initializeDevice e ref s)) = nextRef s"
proof -
  obtain ok s2 where i: "initializeOPCUADevice e ref (snd (opcCall e (AddFolder ''ModbusDevices'') (snd (opcCall e GetOwnNamespace s)))) = (ok, s2)"
    by (cases "initializeOPCUADevice e ref (snd (opcCall e (AddFolder ''ModbusDevices'') (snd (opcCall e GetOwnNamespace s))))")
  show ?thesis
    using initializeOPCUADevice_fields [of e ref "snd (opcCall e (AddFolder ''ModbusDevices'') (snd (opcCall e GetOwnNamespace s)))"] i
    by (simp add: initializeDevice_def startDevicePolling_def initializeModbusClient_def
        split: prod.splits) (auto simp add: opcCall_def Let_def)
qed

lemma post_devices_R400:
  "(fst (post_devices e now b s) = R400) = (b_name b = [] \<or> b_type b = [] \<or> b_tags b = None)"
  by (auto simp add: post_devices_def Let_def split: option.splits prod.splits)

lemma post_devices_rejected:
  "b_name b = [] \<or> b_type b = [] \<or> b_tags b = None \<Longrightarrow> post_devices e now b s = (R400, s)"
  by (auto simp add: post_devices_def split: option.splits)

lemma post_devices_accepted:
  assumes "b_name b \<noteq> []" "b_type b \<noteq> []" "b_tags b = Some ts"
  shows "(fst (post_devices e now b s) = R200_device (nextRef s) \<or> fst (post_devices e now b s) = R500)
     \<and> devices (snd (post_devices e now b s)) = devices s @ [nextRef s]
     \<and> heap (snd (post_devices e now b s)) = (heap s)(nextRef s := mkDevice now b ts)"
proof -
  let ?s1 = "s\<lparr>heap := (heap s)(nextRef s := mkDevice now b ts), nextRef := Suc (nextRef s),
                devices := devices s @ [nextRef s]\<rparr>"
  obtain ok s2 where i: "initializeDevice e (nextRef s) ?s1 = (ok, s2)"
    by (cases "initializeDevice e (nextRef s) ?s1")
  then have "post_devices e now b s = (if ok then R200_device (nextRef s) else R500, s2)"
    using assms by (simp add: post_devices_def Let_def)
  then show ?thesis
    using initializeDevice_fields [of e "nextRef s" ?s1] i by simp
qed

lemmas init_defs = post_devices_def initializeDevice_def initializeOPCUADevice_def opcCall_def
  initializeModbusClient_def startDevicePolling_def mkDevice_def getOPCUADataType_def Let_def

text \<open>
  C3, amended. Adding a device whose id is already in the registry is not refused:
  the handler checks only that the body has a name, a type and a \<open>tags\<close> array. Such a
  body is appended to the registry, which then holds two devices with that id; the
  device objects already there are not changed. The answer is the success response,
  or the error response of the handler's \<open>catch\<close> when the OPC UA registration throws,
  never the validation error.
\<close>

theorem post_duplicate_id:
  assumes ok: "b_name b \<noteq> []" "b_type b \<noteq> []" "b_tags b = Some ts" "b_id b \<noteq> []"
    and dup: "r \<in> set (devices s)" "dev_id (heap s r) = b_id b"
    and wf: "\<forall>r' \<in> set (devices s). r' < nextRef s"
  shows "fst (post_devices e now b s) \<noteq> R400
     \<and> (fst (post_devices e now b s) = R200_device (nextRef s)
          \<or> fst (post_devices e now b s) = R500)
     \<and> devices (snd (post_devices e now b s)) = devices s @ [nextRef s]
     \<and> nextRef s \<notin> set (devices s)
     \<and> dev_id (heap (snd (post_devices e now b s)) (nextRef s)) = b_id b
     \<and> dev_id (heap (snd (post_devices e now b s)) r) = b_id b
     \<and> (\<forall>r' \<in> set (devices s). heap (snd (post_devices e now b s)) r' = heap s r')"
proof -
  have fresh: "nextRef s \<notin> set (devices s)"
    using wf by auto
  then have "r \<noteq> nextRef s"
    using dup(1) by auto
  with post_devices_accepted [OF ok(1-3), of e now s] fresh dup ok(4)
  show ?thesis
    by (auto simp add: mkDevice_def)
qed

text \<open>The theorem of C3 at the sample registry and a body that reuses the id \<open>d1\<close>.\<close>

theorem post_duplicate_id_witness:
  "0 \<in> set (devices (ex_state True [])) \<and> dev_id (heap (ex_state True []) 0) = ''d1''
   \<and> devices (snd (post_devices ex_env ''1700000000000'' (ex_body ''d1'' (Some []))
        (ex_state True []))) = [0, 1]"
  using post_duplicate_id
    [of "ex_body ''d1'' (Some [])" "[]" 0 "ex_state True []" ex_env "''1700000000000''"]
  by (simp add: ex_defs ex_body_def)

text \<open>
  C3 as stated fails: posting a device with the id \<open>d1\<close> to a registry that holds \<open>d1\<close>
  succeeds and leaves two devices with that id in the registry.
\<close>

theorem post_duplicate_id_counterexample:
  "dev_id (heap (ex_state True []) 0) = ''d1''
   \<and> fst (post_devices ex_env ''1700000000000''
        (ex_body ''d1'' (Some [ex_tag ''t9'' ''holding'' 9 ''uint16''])) (ex_state True [])) =
       R200_device 1
   \<and> map (\<lambda>r. dev_id (heap (snd (post_devices ex_env ''1700000000000''
        (ex_body ''d1'' (Some [ex_tag ''t9'' ''holding'' 9 ''uint16''])) (ex_state True []))) r))
       (devices (snd (post_devices ex_env ''1700000000000''
        (ex_body ''d1'' (Some [ex_tag ''t9'' ''holding'' 9 ''uint16''])) (ex_state True [])))) =
       [''d1'', ''d1'']"
  by (simp add: ex_defs ex_body_def init_defs)

text \<open>
  C6, amended. The add operation fails with the validation error, leaving the state
  as it was, exactly when the name or the type is missing or \<open>tags\<close> is not an array.
  A body with an empty tag list, or with two tags of one name, passes the validation:
  the device enters the registry with those tags, and the answer is the success
  response, or the error response of the handler's \<open>catch\<close> when the OPC UA registration
  throws.
\<close>

theorem post_validation:
  "(fst (post_devices e now b s) = R400) = (b_name b = [] \<or> b_type b = [] \<or> b_tags b = None)
   \<and> (fst (post_devices e now b s) = R400 \<longrightarrow> snd (post_devices e now b s) = s)
   \<and> (b_name b \<noteq> [] \<and> b_type b \<noteq> [] \<and> b_tags b = Some ts
        \<and> (ts = [] \<or> \<not> distinct (map tag_name ts)) \<longrightarrow>
        (fst (post_devices e now b s) = R200_device (nextRef s)
           \<or> fst (post_devices e now b s) = R500)
        \<and> devices (snd (post_devices e now b s)) = devices s @ [nextRef s]
        \<and> tags (heap (snd (post_devices e now b s)) (nextRef s)) = ts)"
proof -
  have a: "(fst (post_devices e now b s) = R400) = (b_name b = [] \<or> b_type b = [] \<or> b_tags b = None)"
    by (rule post_devices_R400)
  have b: "snd (post_devices e now b s) = s" if "fst (post_devices e now b s) = R400"
    using that post_devices_rejected [of b e now s] a by simp
  have c: "(fst (post_devices e now b s) = R200_device (nextRef s)
           \<or> fst (post_devices e now b s) = R500)
        \<and> devices (snd (post_devices e now b s)) = devices s @ [nextRef s]
        \<and> tags (heap (snd (post_devices e now b s)) (nextRef s)) = ts"
    if "b_name b \<noteq> []" "b_type b \<noteq> []" "b_tags b = Some ts"
    using post_devices_accepted [OF that, of e now s] by (simp add: mkDevice_def)
  show ?thesis
    using a b c by blast
qed

text \<open>The theorem of C6 at a body with an empty tag list.\<close>

theorem post_validation_witness:
  "b_tags (ex_body ''d2'' (Some [])) = Some []
   \<and> devices (snd (post_devices ex_env ''1700000000000'' (ex_body ''d2'' (Some []))
        (ex_state True []))) = [0, 1]
   \<and> tags (heap (snd (post_devices ex_env ''1700000000000'' (ex_body ''d2'' (Some []))
        (ex_state True []))) 1) = []"
  using post_validation
    [of ex_env "''1700000000000''" "ex_body ''d2'' (Some [])" "ex_state True []" "[]"]
  by (simp add: ex_defs ex_body_def)

text \<open>
  C6 as stated fails: a device with an empty tag list is accepted and registered, and
  so is a device with two tags named \<open>t\<close>.
\<close>

theorem post_empty_tags_counterexample:
  "fst (post_devices ex_env ''1700000000000'' (ex_body ''d2'' (Some [])) (ex_state True [])) =
     R200_device 1
   \<and> devices (snd (post_devices ex_env ''1700000000000'' (ex_body ''d2'' (Some []))
        (ex_state True []))) = [0, 1]
   \<and> tags (heap (snd (post_devices ex_env ''1700000000000'' (ex_body ''d2'' (Some []))
        (ex_state True []))) 1) = []
   \<and> map tag_name (tags (heap (snd (post_devices ex_env ''1700000000000''
        (ex_body ''d3'' (Some [ex_tag ''t'' ''holding'' 1 ''uint16'', ex_tag ''t'' ''coil'' 2 ''boolean'']))
        (ex_state True []))) 1)) = [''t'', ''t'']
   \<and> devices (snd (post_devices ex_env ''1700000000000''
        (ex_body ''d3'' (Some [ex_tag ''t'' ''holding'' 1 ''uint16'', ex_tag ''t'' ''coil'' 2 ''boolean'']))
        (ex_state True []))) = [0, 1]"
  by (simp add: ex_defs ex_body_def init_defs)

lemma disposeAll_True:
  "disposeAll e vs tr = (True, tr') \<Longrightarrow> tr' = tr @ map (\<lambda>v. Opcua (Dispose v) True) vs"
proof (induction vs arbitrary: tr)
  case Nil
  then show ?case by simp
next
  case (Cons v vs)
  from Cons.prems have ok: "opcua e tr (Dispose v)"
    and rest: "disposeAll e vs (tr @ [Opcua (Dispose v) True]) = (True, tr')"
    by (auto simp add: Let_def split: if_splits)
  from Cons.IH [OF rest] show ?case by simp
qed

lemma removeDeviceVariables_True:
  assumes "removeDeviceVariables e i s = (True, s1)"
  shows "s1 = s\<lparr>opcuaVariables := (opcuaVariables s)(i := None),
               trace := trace s @ map (\<lambda>v. Opcua (Dispose v) True)
                 (case opcuaVariables s i of None \<Rightarrow> [] | Some vars \<Rightarrow> map snd vars)\<rparr>"
proof (cases "opcuaVariables s i")
  case None
  then have "(opcuaVariables s)(i := None) = opcuaVariables s"
    by (simp add: fun_upd_idem)
  with assms None show ?thesis
    by (simp add: removeDeviceVariables_def)
next
  case (Some vars)
  obtain ok tr where d: "disposeAll e (map snd vars) (trace s) = (ok, tr)"
    by (cases "disposeAll e (map snd vars) (trace s)")
  with assms Some have "ok" and s1: "s1 = s\<lparr>opcuaVariables := (opcuaVariables s)(i := None), trace := tr\<rparr>"
    by (auto simp add: removeDeviceVariables_def split: if_splits)
  with d disposeAll_True [of e "map snd vars" "trace s" tr] Some show ?thesis
    by simp
qed

lemma readDeviceData_no_client:
  "modbusClients s (dev_id (heap s ref)) = None \<Longrightarrow> readDeviceData e ref s = s"
  by (simp add: readDeviceData_def)

lemma funpow_fixed: "f x = x \<Longrightarrow> (f ^^ n) x = x"
  by (induction n) simp_all

text \<open>
  C4, amended. A successful removal of a device id leaves every interval running:
  poll ticks keep firing for the removed device. The removal disposes each OPC UA
  variable registered under the id exactly once and makes no other OPC UA call, then
  calls \<open>close\<close> once on the client registered under the id and forgets it (these
  calls, in this order, are all it adds to the trace), and takes the first device with
  that id out of the registry. From then on a tick for a device with that id finds no client and returns
  at once: it connects nothing, reads nothing and changes no tag value, however often
  it fires, for as long as no client is registered under that id again. So it is for
  every interval whose device has that id.
\<close>

theorem delete_leaves_interval:
  assumes del: "delete_devices e i s = (R200, s')"
  shows "timers s' = timers s
     \<and> heap s' = heap s
     \<and> modbusClients s' i = None
     \<and> opcuaVariables s' i = None
     \<and> (\<forall>ref n. dev_id (heap s' ref) = i \<longrightarrow> (readDeviceData e' ref ^^ n) s' = s')
     \<and> (\<forall>k n. k < length (timers s') \<and> dev_id (heap s' (fst (timers s' ! k))) = i \<longrightarrow>
          (tick e' k ^^ n) s' = s')
     \<and> [c. Opcua c ok \<leftarrow> drop (length (trace s)) (trace s')] =
         map Dispose (case opcuaVariables s i of None \<Rightarrow> [] | Some vars \<Rightarrow> map snd vars)
     \<and> trace s' =
         trace s
         @ map (\<lambda>v. Opcua (Dispose v) True)
             (case opcuaVariables s i of None \<Rightarrow> [] | Some vars \<Rightarrow> map snd vars)
         @ (case modbusClients s i of
              None \<Rightarrow> []
            | Some cl \<Rightarrow>
                [Modbus cl Close
                   (transport e
                      (trace s
                       @ map (\<lambda>v. Opcua (Dispose v) True)
                           (case opcuaVariables s i of None \<Rightarrow> [] | Some vars \<Rightarrow> map snd vars))
                      cl Close)])
     \<and> (\<exists>index. findIndex (\<lambda>r. dev_id (heap s r) = i) (devices s) = Some index
          \<and> devices s' = take index (devices s) @ drop (Suc index) (devices s))"
proof -
  obtain index where ix: "findIndex (\<lambda>r. dev_id (heap s r) = i) (devices s) = Some index"
    using del by (cases "findIndex (\<lambda>r. dev_id (heap s r) = i) (devices s)")
      (auto simp add: delete_devices_def)
  obtain ok s1 where rm: "removeDeviceVariables e i s = (ok, s1)"
    by (cases "removeDeviceVariables e i s")
  have ok: "ok"
    using del ix rm by (auto simp add: delete_devices_def split: if_splits)
  let ?disp = "map (\<lambda>v. Opcua (Dispose v) True)
                 (case opcuaVariables s i of None \<Rightarrow> [] | Some vars \<Rightarrow> map snd vars)"
  have s1: "s1 = s\<lparr>opcuaVariables := (opcuaVariables s)(i := None), trace := trace s @ ?disp\<rparr>"
    using removeDeviceVariables_True rm ok by simp
  let ?s2 = "case modbusClients s1 i of
               None \<Rightarrow> s1
             | Some cl \<Rightarrow>
                 (snd (callModbus e cl Close s1))\<lparr>modbusClients := (modbusClients s1)(i := None)\<rparr>"
  have s': "s' = ?s2\<lparr>devices := take index (devices ?s2) @ drop (Suc index) (devices ?s2)\<rparr>"
    using del ix rm ok by (simp add: delete_devices_def Let_def)
  have f: "timers s' = timers s" "heap s' = heap s" "modbusClients s' i = None"
    "opcuaVariables s' i = None"
    "devices s' = take index (devices s) @ drop (Suc index) (devices s)"
    using s' s1 by (simp_all split: option.splits)
  let ?close = "case modbusClients s i of
                  None \<Rightarrow> []
                | Some cl \<Rightarrow> [Modbus cl Close (transport e (trace s @ ?disp) cl Close)]"
  have whole: "trace s' = trace s @ ?disp @ ?close"
    using s' s1 by (auto simp add: callModbus_def Let_def split: option.splits)
  have "\<forall>c \<in> set ?close. \<exists>cl rq r. c = Modbus cl rq r"
    by (cases "modbusClients s i") auto
  with whole obtain cs where cs: "trace s' = trace s @ ?disp @ cs"
    "\<forall>c \<in> set cs. \<exists>cl rq r. c = Modbus cl rq r"
    by blast
  have "[c. Opcua c ok \<leftarrow> cs] = []"
    using cs(2) by (induction cs) auto
  then have d: "[c. Opcua c ok \<leftarrow> drop (length (trace s)) (trace s')] =
      map Dispose (case opcuaVariables s i of None \<Rightarrow> [] | Some vars \<Rightarrow> map snd vars)"
    using cs(1) by (simp add: o_def split: option.splits)
  have r: "readDeviceData e' ref s' = s'" if "dev_id (heap s' ref) = i" for ref
    using that f(3) by (intro readDeviceData_no_client) simp
  have t: "(readDeviceData e' ref ^^ n) s' = s'" if "dev_id (heap s' ref) = i" for ref n
    using that by (intro funpow_fixed r)
  have k: "(tick e' k ^^ n) s' = s'"
    if "k < length (timers s') \<and> dev_id (heap s' (fst (timers s' ! k))) = i" for k n
    using that r [of "fst (timers s' ! k)"] by (intro funpow_fixed) (simp add: tick_def)
  show ?thesis
    using f d t k ix whole by blast
qed

lemmas delete_defs = delete_devices_def removeDeviceVariables_def callModbus_def Let_def

text \<open>The theorem of C4 at the removal of the sample device.\<close>

theorem delete_leaves_interval_witness:
  "fst (delete_devices ex_env ''d1'' (ex_state True [ex_tag ''t1'' ''holding'' 2 ''uint16''])) = R200
   \<and> trace (snd (delete_devices ex_env ''d1''
        (ex_state True [ex_tag ''t1'' ''holding'' 2 ''uint16'']))) =
       [Opcua (Dispose ''s=d1_t1'') True, Modbus 0 Close NoData]
   \<and> (tick ex_env 0 ^^ 2)
        (snd (delete_devices ex_env ''d1'' (ex_state True [ex_tag ''t1'' ''holding'' 2 ''uint16'']))) =
       snd (delete_devices ex_env ''d1'' (ex_state True [ex_tag ''t1'' ''holding'' 2 ''uint16'']))"
  using delete_leaves_interval
    [of ex_env "''d1''" "ex_state True [ex_tag ''t1'' ''holding'' 2 ''uint16'']"
        "snd (delete_devices ex_env ''d1'' (ex_state True [ex_tag ''t1'' ''holding'' 2 ''uint16'']))"
        ex_env]
  by (simp add: ex_defs delete_defs)

text \<open>
  C4 as stated fails: after the sample device is removed with success and the registry
  is empty, its interval is still running.
\<close>

theorem delete_leaves_interval_counterexample:
  "timers (ex_state True [ex_tag ''t1'' ''holding'' 2 ''uint16'']) = [(0, 2000)]
   \<and> fst (delete_devices ex_env ''d1'' (ex_state True [ex_tag ''t1'' ''holding'' 2 ''uint16''])) = R200
   \<and> devices (snd (delete_devices ex_env ''d1''
        (ex_state True [ex_tag ''t1'' ''holding'' 2 ''uint16'']))) = []
   \<and> timers (snd (delete_devices ex_env ''d1''
        (ex_state True [ex_tag ''t1'' ''holding'' 2 ''uint16'']))) = [(0, 2000)]"
  by (simp add: ex_defs delete_defs)

section \<open>Properties of the connection\<close>

text \<open>
  C7. \<open>connectToDevice\<close> returns a boolean and never throws. Its one caller,
  \<open>readDeviceData\<close>, returns before the call when the device's id has no client, so the
  devices it receives have one. For such a device: if it is already connected the
  result is \<open>true\<close> at once, with no call on the transport and nothing changed; if the
  connect call throws the result is \<open>false\<close>; and whenever the result is \<open>false\<close> the
  device is left disconnected. A thrown value is taken to be an \<open>Error\<close> object, as the
  transport's are, so that reading \<open>error.message\<close> in the \<open>catch\<close> does not throw.
\<close>

theorem connectToDevice_boolean:
  "(\<exists>r. fst (connectToDevice e ref s) = Return r)
   \<and> (modbusClients s (dev_id (heap s ref)) = None \<longrightarrow> readDeviceData e ref s = s)
   \<and> (modbusClients s (dev_id (heap s ref)) = Some cl \<and> connected (heap s ref) \<longrightarrow>
        connectToDevice e ref s = (Return True, s))
   \<and> (modbusClients s (dev_id (heap s ref)) = Some cl \<and> \<not> connected (heap s ref)
        \<and> (dev_type (heap s ref) = ''tcp''
               \<and> transport e (trace s) cl
                    (ConnectTCP (dev_address (heap s ref))
                       (if dev_port (heap s ref) = 0 then 502 else dev_port (heap s ref))) = Throws
             \<or> dev_type (heap s ref) = ''rtu''
               \<and> transport e (trace s) cl
                    (ConnectRTUBuffered (dev_address (heap s ref))
                       (if dev_baudRate (heap s ref) = 0 then 9600
                        else dev_baudRate (heap s ref))) = Throws) \<longrightarrow>
        fst (connectToDevice e ref s) = Return False)
   \<and> (modbusClients s (dev_id (heap s ref)) = Some cl
        \<and> fst (connectToDevice e ref s) = Return False \<longrightarrow>
        \<not> connected (heap (snd (connectToDevice e ref s)) ref))"
proof -
  let ?tcp = "dev_type (heap s ref) = ''tcp''
               \<and> transport e (trace s) cl
                    (ConnectTCP (dev_address (heap s ref))
                       (if dev_port (heap s ref) = 0 then 502 else dev_port (heap s ref))) = Throws"
  let ?rtu = "dev_type (heap s ref) = ''rtu''
               \<and> transport e (trace s) cl
                    (ConnectRTUBuffered (dev_address (heap s ref))
                       (if dev_baudRate (heap s ref) = 0 then 9600
                        else dev_baudRate (heap s ref))) = Throws"
  obtain c s2 where ct: "connectTry e ref cl s = (c, s2)"
    by (cases "connectTry e ref cl s")
  have total: "\<exists>r. fst (connectToDevice e ref s) = Return r"
  proof (cases "modbusClients s (dev_id (heap s ref))")
    case None
    then show ?thesis by (auto simp add: connectToDevice_def)
  next
    case (Some cl')
    obtain c' s' where "connectTry e ref cl' s = (c', s')"
      by (cases "connectTry e ref cl' s")
    with Some show ?thesis
      by (cases c') (auto simp add: connectToDevice_def)
  qed
  have none: "modbusClients s (dev_id (heap s ref)) = None \<longrightarrow> readDeviceData e ref s = s"
    by (simp add: readDeviceData_def)
  have already: "modbusClients s (dev_id (heap s ref)) = Some cl \<and> connected (heap s ref) \<longrightarrow>
      connectToDevice e ref s = (Return True, s)"
    by (simp add: connectToDevice_def)
  have throws: "modbusClients s (dev_id (heap s ref)) = Some cl \<and> \<not> connected (heap s ref)
      \<and> (?tcp \<or> ?rtu) \<longrightarrow> fst (connectToDevice e ref s) = Return False"
  proof (intro impI, elim conjE)
    assume cl: "modbusClients s (dev_id (heap s ref)) = Some cl"
      and nc: "\<not> connected (heap s ref)" and th: "?tcp \<or> ?rtu"
    from th have "c = Throw"
    proof
      assume ?tcp
      with ct show ?thesis by (auto simp add: connectTry_def callModbus_def Let_def)
    next
      assume ?rtu
      with ct show ?thesis by (auto simp add: connectTry_def callModbus_def Let_def)
    qed
    with cl nc ct show "fst (connectToDevice e ref s) = Return False"
      by (simp add: connectToDevice_def)
  qed
  have down: "modbusClients s (dev_id (heap s ref)) = Some cl
      \<and> fst (connectToDevice e ref s) = Return False \<longrightarrow>
      \<not> connected (heap (snd (connectToDevice e ref s)) ref)"
  proof (intro impI, elim conjE)
    assume cl: "modbusClients s (dev_id (heap s ref)) = Some cl"
      and f: "fst (connectToDevice e ref s) = Return False"
    show "\<not> connected (heap (snd (connectToDevice e ref s)) ref)"
    proof (cases "connected (heap s ref)")
      case True
      with cl f show ?thesis by (simp add: connectToDevice_def)
    next
      case False
      show ?thesis
      proof (cases c)
        case (Return b)
        with connectTry_Return [of e ref cl s b s2] ct have "b" by simp
        with cl f False ct Return show ?thesis by (simp add: connectToDevice_def)
      next
        case Throw
        with cl False ct show ?thesis by (simp add: connectToDevice_def)
      qed
    qed
  qed
  show ?thesis
    by (intro conjI) (rule total, rule none, rule already, rule throws, rule down)
qed

text \<open>The theorem of C7 at the connected sample device and at a disconnected device
  on the host that refuses the connection.\<close>

theorem connectToDevice_boolean_witness:
  "modbusClients (ex_state True []) (dev_id (heap (ex_state True []) 0)) = Some 0
   \<and> connected (heap (ex_state True []) 0)
   \<and> connectToDevice ex_env 0 (ex_state True []) = (Return True, ex_state True [])
   \<and> transport ex_env [] 0 (ConnectTCP ''unreachable'' 502) = Throws
   \<and> fst (connectToDevice ex_env 0
        ((ex_state False [])\<lparr>heap := (\<lambda>r. (ex_device False [])\<lparr>dev_address := ''unreachable''\<rparr>)\<rparr>)) =
       Return False
   \<and> \<not> connected (heap (snd (connectToDevice ex_env 0
        ((ex_state False [])\<lparr>heap := (\<lambda>r. (ex_device False [])\<lparr>dev_address := ''unreachable''\<rparr>)\<rparr>))) 0)"
  using connectToDevice_boolean [of ex_env 0 "ex_state True []" 0]
    connectToDevice_boolean
      [of ex_env 0
          "(ex_state False [])\<lparr>heap := (\<lambda>r. (ex_device False [])\<lparr>dev_address := ''unreachable''\<rparr>)\<rparr>" 0]
  by (simp add: ex_defs)

section \<open>Properties of the snapshot\<close>






end
